theory Spec2Isabelle
  imports Complex_Main "HOL-Library.Product_Lexorder"
begin

section \<open>Data model\<close>

text \<open>
  The dashboard's computational core lives in \<^verbatim>\<open>core/ratios.py\<close> (statement aggregation and
  ratios) and in two page modules (\<^verbatim>\<open>pages/1_Screener.py\<close>, \<^verbatim>\<open>pages/2_Fiche_Valeur.py\<close>:
  price returns). It works on pandas objects; the embedding keeps what those functions read.

  \<^item> A Python \<^verbatim>\<open>float\<close> is idealised as a \<^typ>\<open>real\<close>: no rounding and no overflow. The
    missing-value marker of pandas (NaN) is \<open>None\<close> in a cell; a present cell holds a finite
    number.
  \<^item> A date is a calendar triple (year, month, day) under the lexicographic order.
  \<^item> A \<^verbatim>\<open>Series\<close> is the list of its (index, cell) pairs in positional order.
  \<^item> A \<^verbatim>\<open>DataFrame\<close> of a financial statement has the period dates as columns and the line
    items as row labels (its index).
  \<^item> A Python exception is a value \<open>Inl e\<close> of a sum type; a normal return is \<open>Inr v\<close>, and
    Python's \<^verbatim>\<open>None\<close> is \<open>None\<close>.
\<close>

datatype py_error = IndexError | KeyError | ZeroDivisionError | TypeError

type_synonym date = "int \<times> int \<times> int"

type_synonym series = "(date \<times> real option) list"

record dataframe =
  df_columns :: "date list"
  df_rows :: "(string \<times> real option list) list"

text \<open>
  What a function of the source can read from the interpreter it runs in, besides its
  arguments: the wall clock (\<^verbatim>\<open>datetime.now()\<close>, \<^verbatim>\<open>pd.Timestamp.today()\<close>) and the case
  mapping behind \<^verbatim>\<open>str.lower()\<close>, which follows the Unicode tables of the interpreter and is
  left open here. Every function translated from the source takes the runtime as its first
  argument, and its body reads from it exactly what the source reads.
\<close>

record runtime =
  clock :: date
  str_lower :: "string \<Rightarrow> string"

text \<open>
  A table as the provider returns it has pairwise distinct row labels, pairwise distinct
  period columns and one cell per column in every row.
\<close>

definition wf_frame :: "dataframe \<Rightarrow> bool" where
  "wf_frame d \<longleftrightarrow>
     distinct (map fst (df_rows d)) \<and> distinct (df_columns d) \<and>
     list_all (\<lambda>r. length (snd r) = length (df_columns d)) (df_rows d)"

definition bind_err :: "'e + 'a \<Rightarrow> ('a \<Rightarrow> 'e + 'b) \<Rightarrow> 'e + 'b" where
  "bind_err m f = (case m of Inl e \<Rightarrow> Inl e | Inr x \<Rightarrow> f x)"

subsection \<open>Strings\<close>

text \<open>
  On text of ASCII characters \<^verbatim>\<open>str.lower()\<close> maps the 26 capital letters to their small
  forms and nothing else. \<open>ascii_lower\<close> is that mapping; the examples, whose labels and
  candidates are ASCII, run under it.
\<close>

definition ascii_lower_char :: "char \<Rightarrow> char" where
  "ascii_lower_char c =
     (case map_of (zip ''ABCDEFGHIJKLMNOPQRSTUVWXYZ'' ''abcdefghijklmnopqrstuvwxyz'') c of
        Some l \<Rightarrow> l
      | None \<Rightarrow> c)"

definition ascii_lower :: "string \<Rightarrow> string" where
  "ascii_lower s = map ascii_lower_char s"

definition ascii_rt :: "date \<Rightarrow> runtime" where
  "ascii_rt now = \<lparr>clock = now, str_lower = ascii_lower\<rparr>"

text \<open>\<^verbatim>\<open>sub in s\<close> on strings: \<open>sub\<close> occurs in \<open>s\<close> as a contiguous block.\<close>

fun starts_with :: "string \<Rightarrow> string \<Rightarrow> bool" where
  "starts_with s [] = True"
| "starts_with [] (c # sub) = False"
| "starts_with (a # s) (c # sub) = (a = c \<and> starts_with s sub)"

fun contains :: "string \<Rightarrow> string \<Rightarrow> bool" where
  "contains [] sub = (sub = [])"
| "contains (a # s) sub = (starts_with (a # s) sub \<or> contains s sub)"

subsection \<open>pandas and dict primitives\<close>

text \<open>
  Assignment \<^verbatim>\<open>d[k] = v\<close> on an insertion-ordered \<^verbatim>\<open>dict\<close>: an existing key keeps its
  position and gets the new value, a new key goes to the end.
\<close>

fun dict_set :: "('k \<times> 'v) list \<Rightarrow> 'k \<Rightarrow> 'v \<Rightarrow> ('k \<times> 'v) list" where
  "dict_set [] k v = [(k, v)]"
| "dict_set ((k', v') # kvs) k v =
     (if k' = k then (k', v) # kvs else (k', v') # dict_set kvs k v)"

text \<open>Python truthiness of an optional number: \<^verbatim>\<open>None\<close> and zero are false.\<close>

definition truthy :: "real option \<Rightarrow> bool" where
  "truthy v = (case v of None \<Rightarrow> False | Some x \<Rightarrow> x \<noteq> 0)"

text \<open>\<^verbatim>\<open>df.empty\<close>: some axis has length 0.\<close>

definition df_empty :: "dataframe \<Rightarrow> bool" where
  "df_empty d \<longleftrightarrow> df_rows d = [] \<or> df_columns d = []"

text \<open>
  \<^verbatim>\<open>df.loc[label]\<close>: \<^verbatim>\<open>KeyError\<close> for an unknown label; for a label that one row carries,
  that row as a series indexed by the columns; for a label that several rows carry, the
  frame of those rows.
\<close>

datatype selection = Row series | Frame dataframe

definition loc :: "dataframe \<Rightarrow> string \<Rightarrow> py_error + selection" where
  "loc d label =
     (case filter (\<lambda>r. fst r = label) (df_rows d) of
        [] \<Rightarrow> Inl KeyError
      | [r] \<Rightarrow> Inr (Row (zip (df_columns d) (snd r)))
      | r # r' # rs \<Rightarrow> Inr (Frame \<lparr>df_columns = df_columns d, df_rows = r # r' # rs\<rparr>))"

text \<open>\<^verbatim>\<open>s.dropna()\<close> on a series: the present cells, in order.\<close>

fun dropna :: "('i \<times> real option) list \<Rightarrow> ('i \<times> real) list" where
  "dropna [] = []"
| "dropna ((i, None) # s) = dropna s"
| "dropna ((i, Some v) # s) = (i, v) # dropna s"

text \<open>\<^verbatim>\<open>df.dropna()\<close> on a frame: the rows without a missing cell.\<close>

definition dropna_rows :: "(string \<times> real option list) list \<Rightarrow> (string \<times> real list) list" where
  "dropna_rows rows = List.map_filter (\<lambda>r. map_option (Pair (fst r)) (those (snd r))) rows"

text \<open>\<^verbatim>\<open>s.sort_index()\<close>, ascending; \<^verbatim>\<open>s.tail(k)\<close>, the last \<open>k\<close> entries or all of them.\<close>

definition sort_index :: "('i::linorder \<times> 'v) list \<Rightarrow> ('i \<times> 'v) list" where
  "sort_index s = sort_key fst s"

definition tail :: "nat \<Rightarrow> 'a list \<Rightarrow> 'a list" where
  "tail k s = drop (length s - k) s"

text \<open>\<^verbatim>\<open>s.iloc[i]\<close>: positional read, a negative position counts from the end,
  \<^verbatim>\<open>IndexError\<close> out of range.\<close>

definition iloc :: "'a list \<Rightarrow> int \<Rightarrow> py_error + 'a" where
  "iloc xs i =
     (if 0 \<le> i \<and> i < int (length xs) then Inr (xs ! nat i)
      else if i < 0 \<and> - int (length xs) \<le> i then Inr (xs ! nat (int (length xs) + i))
      else Inl IndexError)"

text \<open>
  \<^verbatim>\<open>float(x)\<close> where \<open>x\<close> is a pandas series of numbers (a row of a frame, or the column sums
  of a frame): the number of a one-entry series, \<^verbatim>\<open>TypeError\<close> for any other length.
\<close>

definition float_of_series :: "real list \<Rightarrow> py_error + real" where
  "float_of_series xs = (case xs of [x] \<Rightarrow> Inr x | _ \<Rightarrow> Inl TypeError)"

section \<open>Statement aggregator (\<^verbatim>\<open>core/ratios.py\<close>)\<close>

text \<open>
  \<^verbatim>\<open>_col_like\<close>: the dict comprehension \<^verbatim>\<open>{c.lower(): c for c in df.index.astype(str)}\<close>,
  then the two nested loops, candidates outside and dict entries inside.
\<close>

definition lower_index :: "(string \<Rightarrow> string) \<Rightarrow> string list \<Rightarrow> (string \<times> string) list" where
  "lower_index lower labels = foldl (\<lambda>cols c. dict_set cols (lower c) c) [] labels"

fun first_entry_like ::
  "(string \<Rightarrow> string) \<Rightarrow> string \<Rightarrow> (string \<times> string) list \<Rightarrow> string option" where
  "first_entry_like lower name [] = None"
| "first_entry_like lower name ((k, orig) # cols) =
     (if contains k (lower name) then Some orig else first_entry_like lower name cols)"

fun scan_candidates ::
  "(string \<Rightarrow> string) \<Rightarrow> (string \<times> string) list \<Rightarrow> string list \<Rightarrow> string option" where
  "scan_candidates lower cols [] = None"
| "scan_candidates lower cols (name # candidates) =
     (case first_entry_like lower name cols of
        Some orig \<Rightarrow> Some orig
      | None \<Rightarrow> scan_candidates lower cols candidates)"

definition col_like :: "runtime \<Rightarrow> dataframe option \<Rightarrow> string list \<Rightarrow> string option" where
  "col_like rt df candidates =
     (case df of
        None \<Rightarrow> None
      | Some d \<Rightarrow>
          if df_empty d then None
          else scan_candidates (str_lower rt)
                 (lower_index (str_lower rt) (map fst (df_rows d))) candidates)"

text \<open>
  A candidate is like a row label when the lower-cased candidate occurs in the lower-cased
  label: the test \<^verbatim>\<open>name.lower() in k\<close> of \<^verbatim>\<open>_col_like\<close>, on the label itself.
\<close>

definition label_like :: "runtime \<Rightarrow> string \<Rightarrow> string \<Rightarrow> bool" where
  "label_like rt name label \<longleftrightarrow> contains (str_lower rt label) (str_lower rt name)"

text \<open>
  \<^verbatim>\<open>ttm_sum\<close> and \<^verbatim>\<open>latest_value\<close>. The chain
  \<^verbatim>\<open>df.loc[row].dropna().astype(float).sort_index(axis=0)\<close> works on a series when one row
  carries the label and on a frame when several do. On a frame \<^verbatim>\<open>dropna\<close> drops rows,
  \<^verbatim>\<open>sort_index\<close> orders the rows by label and so leaves them as they are (they all carry
  the one label), \<^verbatim>\<open>sum\<close> adds up each column and \<^verbatim>\<open>iloc[-1]\<close> is the last row, so that
  \<^verbatim>\<open>float\<close> gets a series.
\<close>

definition ttm_sum :: "runtime \<Rightarrow> dataframe option \<Rightarrow> string list \<Rightarrow> py_error + real option" where
  "ttm_sum rt df_q candidates =
     (case df_q of
        None \<Rightarrow> Inr None
      | Some d \<Rightarrow>
          if df_empty d then Inr None
          else (case col_like rt df_q candidates of
                  None \<Rightarrow> Inr None
                | Some row \<Rightarrow>
                    bind_err (loc d row) (\<lambda>sel.
                      case sel of
                        Row r \<Rightarrow>
                          let s = tail 4 (sort_index (dropna r))
                          in if s = [] then Inr None else Inr (Some (sum_list (map snd s)))
                      | Frame f \<Rightarrow>
                          let s = tail 4 (dropna_rows (df_rows f))
                          in if s = [] \<or> df_columns f = [] then Inr None
                             else bind_err
                                    (float_of_series (map sum_list (transpose (map snd s))))
                                    (\<lambda>v. Inr (Some v)))))"

definition latest_value ::
  "runtime \<Rightarrow> dataframe option \<Rightarrow> string list \<Rightarrow> py_error + real option" where
  "latest_value rt df candidates =
     (case df of
        None \<Rightarrow> Inr None
      | Some d \<Rightarrow>
          if df_empty d then Inr None
          else (case col_like rt df candidates of
                  None \<Rightarrow> Inr None
                | Some row \<Rightarrow>
                    bind_err (loc d row) (\<lambda>sel.
                      case sel of
                        Row r \<Rightarrow>
                          let s = sort_index (dropna r)
                          in if s = [] then Inr None
                             else bind_err (iloc (map snd s) (- 1)) (\<lambda>v. Inr (Some v))
                      | Frame f \<Rightarrow>
                          let s = dropna_rows (df_rows f)
                          in if s = [] \<or> df_columns f = [] then Inr None
                             else bind_err (iloc (map snd s) (- 1)) (\<lambda>last_row.
                                  bind_err (float_of_series last_row) (\<lambda>v. Inr (Some v))))))"

text \<open>
  \<^verbatim>\<open>safe_div\<close>: Python's float division raises \<^verbatim>\<open>ZeroDivisionError\<close> on a zero divisor; the
  \<^verbatim>\<open>try\<close>/\<^verbatim>\<open>except Exception\<close> around the body turns any exception into \<^verbatim>\<open>None\<close>.
\<close>

definition py_truediv :: "real \<Rightarrow> real \<Rightarrow> py_error + real" where
  "py_truediv a b = (if b = 0 then Inl ZeroDivisionError else Inr (a / b))"

definition safe_div_body :: "runtime \<Rightarrow> real option \<Rightarrow> real option \<Rightarrow> py_error + real option" where
  "safe_div_body rt a b =
     (case a of
        None \<Rightarrow> Inr None
      | Some x \<Rightarrow>
          (case b of
             None \<Rightarrow> Inr None
           | Some y \<Rightarrow>
               if y = 0 then Inr None
               else bind_err (py_truediv x y) (\<lambda>q. Inr (Some q))))"

definition safe_div :: "runtime \<Rightarrow> real option \<Rightarrow> real option \<Rightarrow> real option" where
  "safe_div rt a b = (case safe_div_body rt a b of Inl e \<Rightarrow> None | Inr r \<Rightarrow> r)"

text \<open>
  What a call gave back when it returned normally, for naming the value of a call in a
  statement; \<open>unavailable\<close> is the test \<^verbatim>\<open>df is None or df.empty\<close> that opens
  \<^verbatim>\<open>ttm_sum\<close> and \<^verbatim>\<open>latest_value\<close>.
\<close>

definition returned :: "'e + 'a option \<Rightarrow> 'a option" where
  "returned m = (case m of Inl e \<Rightarrow> None | Inr v \<Rightarrow> v)"

definition unavailable :: "dataframe option \<Rightarrow> bool" where
  "unavailable df = (case df of None \<Rightarrow> True | Some d \<Rightarrow> df_empty d)"

definition unique_labels :: "dataframe option \<Rightarrow> bool" where
  "unique_labels df = (case df of None \<Rightarrow> True | Some d \<Rightarrow> distinct (map fst (df_rows d)))"

section \<open>Ratio calculator (\<^verbatim>\<open>compute_core_ratios\<close>)\<close>

text \<open>
  \<open>info\<close> and \<open>stmts\<close> are Python dicts read with \<^verbatim>\<open>.get\<close>: a key that is absent or bound
  to \<^verbatim>\<open>None\<close> reads as \<open>None\<close>. The numeric profile fields are the ones the function reads.
\<close>

type_synonym profile = "string \<rightharpoonup> real"

type_synonym statements = "string \<rightharpoonup> dataframe"

type_synonym ratio_set = "(string \<times> real option) list"

text \<open>\<^verbatim>\<open>float(v)\<close> on a number changes its Python type only, never its value.\<close>

definition py_float :: "real \<Rightarrow> real" where
  "py_float v = v"

text \<open>
  The closing loop \<^verbatim>\<open>for k, v in out.items(): ...\<close> reassigns \<^verbatim>\<open>out[k]\<close> for numeric finite
  values, key by key; every number of the model is finite.
\<close>

definition clean_value :: "string \<Rightarrow> real option \<Rightarrow> real option" where
  "clean_value k v =
     (case v of
        None \<Rightarrow> None
      | Some x \<Rightarrow>
          if contains k ''Yield'' then Some (py_float x)
          else if k \<in> set [''P/E (TTM)'', ''EV/EBITDA (TTM)'', ''P/B'', ''P/S (TTM)'', ''D/E'',
                            ''Current Ratio'', ''Interest Coverage''] then Some (py_float x)
          else if k \<in> set [''ROE (TTM)''] then Some (py_float x)
          else Some x)"

definition cleanup :: "ratio_set \<Rightarrow> ratio_set" where
  "cleanup out = map (\<lambda>(k, v). (k, clean_value k v)) out"

text \<open>The blocks of the function body, in source order, each under the comment that heads it.\<close>

text \<open>\<^verbatim>\<open># Trailing PE (fallback via EPS TTM)\<close>\<close>

definition trailing_pe ::
  "runtime \<Rightarrow> real option \<Rightarrow> real option \<Rightarrow> profile \<Rightarrow> statements \<Rightarrow> py_error + real option" where
  "trailing_pe rt price shares info stmts =
     (let pe = info ''trailingPE'' in
      if pe = None \<and> price \<noteq> None \<and> truthy shares then
        bind_err (ttm_sum rt (stmts ''income_q'') [''net income'', ''net income common''])
          (\<lambda>net_income_ttm.
             let eps_ttm = safe_div rt net_income_ttm shares
             in Inr (safe_div rt price eps_ttm))
      else Inr pe)"

text \<open>\<^verbatim>\<open># P/S (TTM)\<close>\<close>

definition price_to_sales ::
  "runtime \<Rightarrow> real option \<Rightarrow> real option \<Rightarrow> profile \<Rightarrow> statements \<Rightarrow> py_error + real option" where
  "price_to_sales rt price shares info stmts =
     (let ps = info ''priceToSalesTrailing12Months'' in
      if ps = None \<and> price \<noteq> None \<and> truthy shares then
        bind_err (ttm_sum rt (stmts ''income_q'') [''total revenue'', ''revenue'', ''sales''])
          (\<lambda>sales_ttm. Inr (safe_div rt (Some (the price * the shares)) sales_ttm))
      else Inr ps)"

text \<open>\<^verbatim>\<open># EV/EBITDA\<close>\<close>

definition ev_to_ebitda ::
  "runtime \<Rightarrow> real option \<Rightarrow> profile \<Rightarrow> statements \<Rightarrow> py_error + real option" where
  "ev_to_ebitda rt mcap info stmts =
     (let ev_ebitda = info ''enterpriseToEbitda'' in
      if ev_ebitda = None then
        bind_err (latest_value rt (stmts ''bs_a'')
                    [''total debt'', ''long term debt'', ''short long term debt''])
          (\<lambda>total_debt.
        bind_err (latest_value rt (stmts ''bs_a'') [''cash'', ''cash and cash equivalents''])
          (\<lambda>cash.
             let ev = (case mcap of
                         None \<Rightarrow> None
                       | Some m \<Rightarrow>
                           (case total_debt of
                              None \<Rightarrow> None
                            | Some d \<Rightarrow>
                                (case cash of None \<Rightarrow> None | Some c \<Rightarrow> Some (m + d - c))))
             in bind_err (ttm_sum rt (stmts ''income_q'') [''ebitda''])
                  (\<lambda>ebitda_ttm. Inr (safe_div rt ev ebitda_ttm))))
      else Inr ev_ebitda)"

text \<open>\<^verbatim>\<open># FCF yield (TTM)\<close>: the free cash flow, then the yield on the market capitalisation.\<close>

definition fcf_ttm_of :: "runtime \<Rightarrow> statements \<Rightarrow> py_error + real option" where
  "fcf_ttm_of rt stmts =
     (let cf_q = stmts ''cf_q'' in
      if cf_q \<noteq> None \<and> \<not> df_empty (the cf_q) then
        bind_err (ttm_sum rt cf_q [''total cash from operating activities'', ''operating cash flow''])
          (\<lambda>ocf_ttm.
        bind_err (ttm_sum rt cf_q [''capital expenditures''])
          (\<lambda>capex_ttm.
             Inr (case ocf_ttm of
                    None \<Rightarrow> None
                  | Some f \<Rightarrow> (case capex_ttm of None \<Rightarrow> None | Some c \<Rightarrow> Some (f - c)))))
      else Inr None)"

text \<open>\<^verbatim>\<open># Interest coverage (EBIT / Interest expense)\<close>: the numerator.\<close>

definition ebit_ttm_of :: "runtime \<Rightarrow> dataframe option \<Rightarrow> py_error + real option" where
  "ebit_ttm_of rt inc_q =
     (if inc_q \<noteq> None \<and> \<not> df_empty (the inc_q)
      then ttm_sum rt inc_q [''ebit'', ''operating income'']
      else Inr None)"

definition compute_core_ratios ::
  "runtime \<Rightarrow> real option \<Rightarrow> profile \<Rightarrow> statements \<Rightarrow> py_error + ratio_set" where
  "compute_core_ratios rt price info stmts =
     (let out = [];
          mcap = info ''marketCap'';
          shares = info ''sharesOutstanding''
      in
      bind_err (trailing_pe rt price shares info stmts) (\<lambda>pe.
      let out = dict_set out ''P/E (TTM)'' pe;
          out = dict_set out ''P/B'' (info ''priceToBook'')
      in
      bind_err (price_to_sales rt price shares info stmts) (\<lambda>ps.
      let out = dict_set out ''P/S (TTM)'' ps
      in
      bind_err (ev_to_ebitda rt mcap info stmts) (\<lambda>ev_ebitda.
      let out = dict_set out ''EV/EBITDA (TTM)'' ev_ebitda
      in
      bind_err (fcf_ttm_of rt stmts) (\<lambda>fcf_ttm.
      let fcf_yield = (if truthy mcap then safe_div rt fcf_ttm mcap else None);
          out = dict_set out ''FCF Yield (TTM)'' fcf_yield
      in
      bind_err (latest_value rt (stmts ''bs_a'')
                  [''total stockholder equity'', ''total shareholders equity'']) (\<lambda>equity.
      bind_err (ttm_sum rt (stmts ''income_q'') [''net income'', ''net income common''])
        (\<lambda>net_income_ttm.
      let out = dict_set out ''ROE (TTM)'' (safe_div rt net_income_ttm equity)
      in
      bind_err (latest_value rt (stmts ''bs_a'') [''total debt'', ''long term debt''])
        (\<lambda>total_debt.
      let out = dict_set out ''D/E'' (safe_div rt total_debt equity)
      in
      bind_err (latest_value rt (stmts ''bs_a'') [''total current assets'']) (\<lambda>current_assets.
      bind_err (latest_value rt (stmts ''bs_a'') [''total current liabilities''])
        (\<lambda>current_liab.
      let out = dict_set out ''Current Ratio'' (safe_div rt current_assets current_liab);
          inc_q = stmts ''income_q''
      in
      bind_err (ebit_ttm_of rt inc_q) (\<lambda>ebit_ttm.
      bind_err (ttm_sum rt inc_q [''interest expense'', ''interest expense non operating''])
        (\<lambda>int_exp_ttm.
      let out = dict_set out ''Interest Coverage''
                  (safe_div rt ebit_ttm
                     (if truthy int_exp_ttm then map_option abs int_exp_ttm else None));
          dy = info ''dividendYield'';
          out = dict_set out ''Dividend Yield'' dy;
          out = dict_set out ''Beta'' (info ''beta'')
      in Inr (cleanup out)))))))))))))"


definition wf_stmts :: "statements \<Rightarrow> bool" where
  "wf_stmts stmts \<longleftrightarrow>
     list_all (\<lambda>k. case stmts k of None \<Rightarrow> True | Some d \<Rightarrow> wf_frame d)
       [''income_q'', ''income_a'', ''bs_q'', ''bs_a'', ''cf_q'', ''cf_a'']"

text \<open>
  The thirteen values \<^verbatim>\<open>compute_core_ratios\<close> reads from the statement tables, and the
  result it builds from them, entry by entry.
\<close>

record reads =
  r_net_income :: "real option"
  r_sales :: "real option"
  r_debt_any :: "real option"
  r_cash :: "real option"
  r_ebitda :: "real option"
  r_ocf :: "real option"
  r_capex :: "real option"
  r_equity :: "real option"
  r_debt :: "real option"
  r_assets :: "real option"
  r_liab :: "real option"
  r_ebit :: "real option"
  r_interest :: "real option"

definition reads_of :: "runtime \<Rightarrow> statements \<Rightarrow> reads \<Rightarrow> bool" where
  "reads_of rt stmts r \<longleftrightarrow>
     ttm_sum rt (stmts ''income_q'') [''net income'', ''net income common''] =
       Inr (r_net_income r) \<and>
     ttm_sum rt (stmts ''income_q'') [''total revenue'', ''revenue'', ''sales''] =
       Inr (r_sales r) \<and>
     latest_value rt (stmts ''bs_a'')
       [''total debt'', ''long term debt'', ''short long term debt''] = Inr (r_debt_any r) \<and>
     latest_value rt (stmts ''bs_a'') [''cash'', ''cash and cash equivalents''] =
       Inr (r_cash r) \<and>
     ttm_sum rt (stmts ''income_q'') [''ebitda''] = Inr (r_ebitda r) \<and>
     ttm_sum rt (stmts ''cf_q'')
       [''total cash from operating activities'', ''operating cash flow''] = Inr (r_ocf r) \<and>
     ttm_sum rt (stmts ''cf_q'') [''capital expenditures''] = Inr (r_capex r) \<and>
     latest_value rt (stmts ''bs_a'')
       [''total stockholder equity'', ''total shareholders equity''] = Inr (r_equity r) \<and>
     latest_value rt (stmts ''bs_a'') [''total debt'', ''long term debt''] = Inr (r_debt r) \<and>
     latest_value rt (stmts ''bs_a'') [''total current assets''] = Inr (r_assets r) \<and>
     latest_value rt (stmts ''bs_a'') [''total current liabilities''] = Inr (r_liab r) \<and>
     ttm_sum rt (stmts ''income_q'') [''ebit'', ''operating income''] = Inr (r_ebit r) \<and>
     ttm_sum rt (stmts ''income_q'')
       [''interest expense'', ''interest expense non operating''] = Inr (r_interest r)"

definition ratio_entries :: "runtime \<Rightarrow> real option \<Rightarrow> profile \<Rightarrow> reads \<Rightarrow> ratio_set" where
  "ratio_entries rt price info r =
     [(''P/E (TTM)'',
         case info ''trailingPE'' of
           Some v \<Rightarrow> Some v
         | None \<Rightarrow>
             if price \<noteq> None \<and> truthy (info ''sharesOutstanding'')
             then safe_div rt price (safe_div rt (r_net_income r) (info ''sharesOutstanding''))
             else None),
      (''P/B'', info ''priceToBook''),
      (''P/S (TTM)'',
         case info ''priceToSalesTrailing12Months'' of
           Some v \<Rightarrow> Some v
         | None \<Rightarrow>
             (case price of
                None \<Rightarrow> None
              | Some p \<Rightarrow>
                  (case info ''sharesOutstanding'' of
                     None \<Rightarrow> None
                   | Some s \<Rightarrow> if s = 0 then None else safe_div rt (Some (p * s)) (r_sales r)))),
      (''EV/EBITDA (TTM)'',
         case info ''enterpriseToEbitda'' of
           Some v \<Rightarrow> Some v
         | None \<Rightarrow>
             (case info ''marketCap'' of
                None \<Rightarrow> None
              | Some m \<Rightarrow>
                  (case r_debt_any r of
                     None \<Rightarrow> None
                   | Some d \<Rightarrow>
                       (case r_cash r of
                          None \<Rightarrow> None
                        | Some c \<Rightarrow> safe_div rt (Some (m + d - c)) (r_ebitda r))))),
      (''FCF Yield (TTM)'',
         if truthy (info ''marketCap'')
         then safe_div rt
                (case r_ocf r of
                   None \<Rightarrow> None
                 | Some f \<Rightarrow> (case r_capex r of None \<Rightarrow> None | Some c \<Rightarrow> Some (f - c)))
                (info ''marketCap'')
         else None),
      (''ROE (TTM)'', safe_div rt (r_net_income r) (r_equity r)),
      (''D/E'', safe_div rt (r_debt r) (r_equity r)),
      (''Current Ratio'', safe_div rt (r_assets r) (r_liab r)),
      (''Interest Coverage'',
         safe_div rt (r_ebit r)
           (if truthy (r_interest r) then map_option abs (r_interest r) else None)),
      (''Dividend Yield'', info ''dividendYield''),
      (''Beta'', info ''beta'')]"

section \<open>Return engine (\<^verbatim>\<open>pages/1_Screener.py\<close>, \<^verbatim>\<open>pages/2_Fiche_Valeur.py\<close>)\<close>

text \<open>
  The returns divide numpy floats: a zero divisor raises nothing and gives an infinity or NaN
  (with a warning). \<open>NonFinite\<close> stands for such a value; subtracting \<open>1.0\<close> keeps it.
\<close>

datatype npfloat = Finite real | NonFinite

definition np_truediv :: "real \<Rightarrow> real \<Rightarrow> npfloat" where
  "np_truediv a b = (if b = 0 then NonFinite else Finite (a / b))"

definition np_sub :: "npfloat \<Rightarrow> real \<Rightarrow> npfloat" where
  "np_sub x c = (case x of Finite r \<Rightarrow> Finite (r - c) | NonFinite \<Rightarrow> NonFinite)"

text \<open>\<^verbatim>\<open>pct_window\<close> of the screener and \<^verbatim>\<open>_ret_days\<close> of the detail page: the same body.\<close>

definition pct_window :: "runtime \<Rightarrow> series \<Rightarrow> int \<Rightarrow> py_error + npfloat option" where
  "pct_window rt series n =
     (let s = map snd (dropna series)
      in if int (length s) \<le> n then Inr None
         else bind_err (iloc s (- 1)) (\<lambda>a.
              bind_err (iloc s (- n - 1)) (\<lambda>b.
                Inr (Some (np_sub (np_truediv a b) 1)))))"

definition ret_days :: "runtime \<Rightarrow> series \<Rightarrow> int \<Rightarrow> py_error + npfloat option" where
  "ret_days rt series n =
     (let s = map snd (dropna series)
      in if int (length s) \<le> n then Inr None
         else bind_err (iloc s (- 1)) (\<lambda>a.
              bind_err (iloc s (- n - 1)) (\<lambda>b.
                Inr (Some (np_sub (np_truediv a b) 1)))))"

text \<open>
  The year-to-date returns read the wall clock (\<^verbatim>\<open>datetime.now().year\<close>,
  \<^verbatim>\<open>pd.Timestamp.today().year\<close>): the field \<open>clock\<close> of the runtime.
\<close>

definition year_of :: "date \<Rightarrow> int" where
  "year_of d = fst d"

definition ytd_return :: "runtime \<Rightarrow> series \<Rightarrow> py_error + npfloat option" where
  "ytd_return rt series =
     (if series = [] then Inr None
      else
        let start_year = (year_of (clock rt), 1, 1);
            s = map snd (dropna (filter (\<lambda>p. start_year \<le> fst p) series))
        in if length s < 2 then Inr None
           else bind_err (iloc s (- 1)) (\<lambda>a.
                bind_err (iloc s 0) (\<lambda>b.
                  Inr (Some (np_sub (np_truediv a b) 1)))))"

definition ret_ytd :: "runtime \<Rightarrow> series \<Rightarrow> py_error + npfloat option" where
  "ret_ytd rt series =
     (let s = dropna series
      in if s = [] then Inr None
         else
           let start = (year_of (clock rt), 1, 1);
               s = map snd (filter (\<lambda>p. start \<le> fst p) s)
           in if length s < 2 then Inr None
              else bind_err (iloc s (- 1)) (\<lambda>a.
                   bind_err (iloc s 0) (\<lambda>b.
                     Inr (Some (np_sub (np_truediv a b) 1)))))"

section \<open>Example data\<close>

text \<open>Five consecutive trading days, the end-to-end example of the specification.\<close>

definition five_days :: series where
  "five_days =
     [((2024, 3, 4), Some 100), ((2024, 3, 5), Some 102), ((2024, 3, 6), Some 101),
      ((2024, 3, 7), Some 105), ((2024, 3, 8), Some 110)]"

text \<open>The same closes with a gap in the dates and a missing observation in between.\<close>

definition five_days_gaps :: series where
  "five_days_gaps =
     [((2024, 3, 4), Some 100), ((2024, 3, 11), Some 102), ((2024, 3, 12), None),
      ((2024, 4, 2), Some 101), ((2024, 4, 3), Some 105), ((2024, 7, 1), Some 110)]"

text \<open>A series across a year boundary.\<close>

definition across_years :: series where
  "across_years =
     [((2023, 12, 28), Some 50), ((2023, 12, 29), Some 80), ((2024, 1, 2), Some 100),
      ((2024, 1, 3), None), ((2024, 1, 4), Some 125)]"

text \<open>A frame with a labelled row and no period column.\<close>

definition no_columns :: dataframe where
  "no_columns = \<lparr>df_columns = [], df_rows = [(''Net Income'', [])]\<rparr>"

text \<open>A quarterly income table, newest period first; net income has three reported quarters.\<close>

definition three_quarters :: dataframe where
  "three_quarters =
     \<lparr>df_columns = [(2024, 9, 30), (2024, 6, 30), (2024, 3, 31), (2023, 12, 31)],
      df_rows = [(''Total Revenue'', [Some 400, Some 300, Some 200, Some 100]),
                 (''Net Income'', [Some 30, Some 20, None, Some 10])]\<rparr>"

text \<open>
  A quarterly income table with five periods; net income is reported in four of them and
  sums to 250, the EBITDA of the four latest quarters to 400.
\<close>

definition four_quarters :: dataframe where
  "four_quarters =
     \<lparr>df_columns = [(2024, 9, 30), (2024, 6, 30), (2024, 3, 31), (2023, 12, 31),
                    (2023, 9, 30)],
      df_rows = [(''Total Revenue'', [Some 900, Some 800, Some 700, Some 600, Some 500]),
                 (''Net Income'', [Some 100, Some 50, None, Some 60, Some 40]),
                 (''EBITDA'', [Some 120, Some 80, Some 90, Some 110, Some 70])]\<rparr>"

text \<open>An annual balance sheet, two periods.\<close>

definition balance_sheet :: dataframe where
  "balance_sheet =
     \<lparr>df_columns = [(2023, 12, 31), (2022, 12, 31)],
      df_rows = [(''Total Debt'', [Some 300, Some 250]),
                 (''Cash And Cash Equivalents'', [Some 100, Some 90]),
                 (''Total Stockholder Equity'', [Some 600, Some 500]),
                 (''Total Current Assets'', [Some 400, None]),
                 (''Total Current Liabilities'', [Some 200, Some 180])]\<rparr>"

text \<open>Statement dicts and profiles built from them.\<close>

definition quarterly_only :: statements where
  "quarterly_only = [''income_q'' \<mapsto> four_quarters]"

definition full_statements :: statements where
  "full_statements = [''income_q'' \<mapsto> four_quarters, ''bs_a'' \<mapsto> balance_sheet]"

definition bare_profile :: profile where
  "bare_profile = [''sharesOutstanding'' \<mapsto> 100, ''marketCap'' \<mapsto> 1000]"

definition provider_profile :: profile where
  "provider_profile = [''trailingPE'' \<mapsto> 12.5, ''beta'' \<mapsto> 1.2]"





text \<open>An ASCII runtime whose clock shows the last day of June 2024.\<close>

definition rt_2024 :: runtime where
  "rt_2024 = ascii_rt (2024, 6, 30)"

section \<open>Basic facts\<close>

lemma bind_err_Inr [simp]: "bind_err (Inr x) f = f x"
  by (simp add: bind_err_def)

lemma bind_err_Inl [simp]: "bind_err (Inl e) f = Inl e"
  by (simp add: bind_err_def)

lemma iloc_last: "xs \<noteq> [] \<Longrightarrow> iloc xs (- 1) = Inr (last xs)"
  by (cases xs rule: rev_cases) (auto simp: iloc_def nth_append)

lemma iloc_first: "xs \<noteq> [] \<Longrightarrow> iloc xs 0 = Inr (hd xs)"
  by (cases xs) (auto simp: iloc_def)

lemma iloc_back:
  assumes "0 \<le> n" and "n < int (length xs)"
  shows "iloc xs (- n - 1) = Inr (xs ! (length xs - 1 - nat n))"
proof -
  have "nat (int (length xs) + (- n - 1)) = length xs - 1 - nat n"
    using assms by linarith
  then show ?thesis
    using assms by (simp add: iloc_def)
qed

lemma dropna_filter:
  "dropna (filter (\<lambda>p. P (fst p)) s) = filter (\<lambda>p. P (fst p)) (dropna s)"
  by (induction s rule: dropna.induct) auto

section \<open>Safe division\<close>

text \<open>
  Claim C9. \<^verbatim>\<open>safe_div\<close> never raises: its guarded body always returns normally, and the
  result is \<open>None\<close> when the numerator is absent, when the denominator is absent and when the
  denominator is zero, and the quotient in every other case.
\<close>

theorem safe_div_spec:
  "safe_div_body rt a b = Inr (safe_div rt a b) \<and>
   safe_div rt a b =
     (case a of
        None \<Rightarrow> None
      | Some x \<Rightarrow> (case b of None \<Rightarrow> None | Some y \<Rightarrow> if y = 0 then None else Some (x / y)))"
  by (simp add: safe_div_def safe_div_body_def py_truediv_def split: option.splits)

section \<open>Windowed returns\<close>

text \<open>
  Claim C3. For a window size \<open>n\<close> (a count, so \<open>0 \<le> n\<close>) and a price series \<open>s\<close>, with \<open>vs\<close>
  the values of the na-dropped series: \<^verbatim>\<open>pct_window\<close> returns \<open>None\<close> when \<open>vs\<close> has at most
  \<open>n\<close> entries, and otherwise the last value divided by the value \<open>n\<close> positions before it,
  minus one (a zero divisor gives numpy's non-finite value, not an exception); with
  exactly \<open>n + 1\<close> entries that is last over first, minus one. \<^verbatim>\<open>_ret_days\<close> computes the same.
\<close>

theorem pct_window_spec:
  assumes "0 \<le> n"
  shows "let vs = map snd (dropna s); k = length vs in
           pct_window rt s n =
             (if int k \<le> n then Inr None
              else Inr (Some (if vs ! (k - 1 - nat n) = 0 then NonFinite
                              else Finite (last vs / vs ! (k - 1 - nat n) - 1)))) \<and>
           ret_days rt s n = pct_window rt s n \<and>
           (int k = n + 1 \<longrightarrow>
              pct_window rt s n =
                Inr (Some (if hd vs = 0 then NonFinite else Finite (last vs / hd vs - 1))))"
proof -
  define vs where "vs = map snd (dropna s)"
  define k where "k = length vs"
  have same: "ret_days rt s n = pct_window rt s n"
    by (simp add: ret_days_def pct_window_def)
  have main: "pct_window rt s n =
      (if int k \<le> n then Inr None
       else Inr (Some (if vs ! (k - 1 - nat n) = 0 then NonFinite
                       else Finite (last vs / vs ! (k - 1 - nat n) - 1))))"
  proof (cases "int k \<le> n")
    case True
    then show ?thesis
      by (simp add: pct_window_def vs_def k_def)
  next
    case False
    then have ne: "vs \<noteq> []" and lt: "n < int (length vs)"
      using assms by (auto simp: k_def)
    show ?thesis
      using False iloc_last [OF ne] iloc_back [OF assms lt]
      by (simp add: pct_window_def vs_def [symmetric] k_def [symmetric] Let_def
          np_truediv_def np_sub_def)
  qed
  have edge: "pct_window rt s n =
      Inr (Some (if hd vs = 0 then NonFinite else Finite (last vs / hd vs - 1)))"
    if "int k = n + 1"
  proof -
    have "k - 1 - nat n = 0" and "vs \<noteq> []" and "\<not> int k \<le> n"
      using that assms by (auto simp: k_def)
    then show ?thesis
      using main by (simp add: hd_conv_nth)
  qed
  show ?thesis
    using same main edge by (simp add: vs_def [symmetric] k_def [symmetric] Let_def)
qed

theorem pct_window_spec_witness:
  "(0::int) \<le> 4 \<and> pct_window rt_2024 five_days 4 = Inr (Some (Finite (110 / 100 - 1))) \<and>
   ret_days rt_2024 five_days 4 = Inr (Some (Finite (110 / 100 - 1)))"
  using pct_window_spec [where n = 4 and rt = rt_2024 and s = five_days] by (simp add: five_days_def Let_def)

text \<open>
  Claim C10. The windowed return does not look at the dates: two series whose na-dropped
  value sequences are equal get equal results, for every window.
\<close>

theorem pct_window_dates:
  assumes "map snd (dropna s1) = map snd (dropna s2)"
  shows "pct_window rt s1 n = pct_window rt s2 n \<and> ret_days rt s1 n = ret_days rt s2 n"
  using assms by (simp add: pct_window_def ret_days_def)

theorem pct_window_dates_witness:
  "map snd (dropna five_days) = map snd (dropna five_days_gaps) \<and>
   pct_window rt_2024 five_days 1 = pct_window rt_2024 five_days_gaps 1 \<and>
   ret_days rt_2024 five_days 1 = ret_days rt_2024 five_days_gaps 1"
proof -
  have h: "map snd (dropna five_days) = map snd (dropna five_days_gaps)"
    by (simp add: five_days_def five_days_gaps_def)
  show ?thesis
    using h pct_window_dates [OF h, where rt = rt_2024 and n = 1] by simp
qed

section \<open>Year-to-date returns\<close>

text \<open>
  Claim C7. The year-to-date return keeps the observations dated on or after January 1 of
  the year the clock of the runtime shows, and drops the missing ones. Fewer than two
  points left: the result is \<open>None\<close>. Two or more: the last point over the first, minus one
  (a zero first point gives numpy's non-finite value). \<^verbatim>\<open>ytd_return\<close> and \<^verbatim>\<open>_ret_ytd\<close> agree.
\<close>

theorem ytd_return_spec:
  "let sl = map snd (dropna (filter (\<lambda>p. (year_of (clock rt), 1, 1) \<le> fst p) s)) in
     ytd_return rt s =
       (if length sl < 2 then Inr None
        else Inr (Some (if hd sl = 0 then NonFinite else Finite (last sl / hd sl - 1)))) \<and>
     ret_ytd rt s = ytd_return rt s"
proof -
  define sl where "sl = map snd (dropna (filter (\<lambda>p. (year_of (clock rt), 1, 1) \<le> fst p) s))"
  have sl_alt: "sl = map snd (filter (\<lambda>p. (year_of (clock rt), 1, 1) \<le> fst p) (dropna s))"
    by (simp add: sl_def dropna_filter)
  have val: "bind_err (iloc sl (- 1)) (\<lambda>a. bind_err (iloc sl 0) (\<lambda>b.
                Inr (Some (np_sub (np_truediv a b) 1)))) =
             Inr (Some (if hd sl = 0 then NonFinite else Finite (last sl / hd sl - 1)))"
    if "\<not> length sl < 2"
  proof -
    from that have "sl \<noteq> []" by auto
    then show ?thesis
      by (simp add: iloc_last iloc_first np_truediv_def np_sub_def)
  qed
  have empty: "length sl < 2" if "dropna s = []"
    using that by (simp add: sl_alt)
  have ua: "ytd_return rt s =
      (if s = [] then Inr None
       else if length sl < 2 then Inr None
       else bind_err (iloc sl (- 1)) (\<lambda>a. bind_err (iloc sl 0) (\<lambda>b.
              Inr (Some (np_sub (np_truediv a b) 1)))))"
    by (simp only: ytd_return_def Let_def sl_def)
  have a: "ytd_return rt s =
       (if length sl < 2 then Inr None
        else Inr (Some (if hd sl = 0 then NonFinite else Finite (last sl / hd sl - 1))))"
    unfolding ua using val empty by (cases "s = []") simp_all
  have ub: "ret_ytd rt s =
      (if dropna s = [] then Inr None
       else if length sl < 2 then Inr None
       else bind_err (iloc sl (- 1)) (\<lambda>a. bind_err (iloc sl 0) (\<lambda>b.
              Inr (Some (np_sub (np_truediv a b) 1)))))"
    by (simp only: ret_ytd_def Let_def sl_alt)
  have b: "ret_ytd rt s =
       (if length sl < 2 then Inr None
        else Inr (Some (if hd sl = 0 then NonFinite else Finite (last sl / hd sl - 1))))"
    unfolding ub using val empty by (cases "dropna s = []") simp_all
  show ?thesis
    using a b by (simp add: sl_def [symmetric] Let_def)
qed

theorem ytd_return_spec_witness:
  "ytd_return rt_2024 across_years = Inr (Some (Finite (125 / 100 - 1))) \<and>
   ret_ytd rt_2024 across_years = Inr (Some (Finite (125 / 100 - 1))) \<and>
   ytd_return rt_2024 (take 4 across_years) = Inr None"
  using ytd_return_spec [where rt = rt_2024 and s = across_years]
    ytd_return_spec [where rt = rt_2024 and s = "take 4 across_years"]
  by (simp add: across_years_def year_of_def rt_2024_def ascii_rt_def Let_def)

section \<open>Resolving a line item\<close>

lemma dict_set_entries: "set (dict_set kvs k v) \<subseteq> insert (k, v) (set kvs)"
  by (induction kvs k v rule: dict_set.induct) auto

lemma dict_set_keys: "fst ` set (dict_set kvs k v) = insert k (fst ` set kvs)"
  by (induction kvs k v rule: dict_set.induct) auto

lemma foldl_dict_set_entries:
  "set (foldl (\<lambda>cols c. dict_set cols (f c) c) acc labels)
     \<subseteq> set acc \<union> (\<lambda>c. (f c, c)) ` set labels"
proof (induction labels arbitrary: acc)
  case Nil
  then show ?case by simp
next
  case (Cons c labels)
  have "set (foldl (\<lambda>cols c. dict_set cols (f c) c) (dict_set acc (f c) c) labels)
          \<subseteq> set (dict_set acc (f c) c) \<union> (\<lambda>c. (f c, c)) ` set labels"
    by (rule Cons.IH)
  also have "\<dots> \<subseteq> insert (f c, c) (set acc) \<union> (\<lambda>c. (f c, c)) ` set labels"
    using dict_set_entries [of acc "f c" c] by blast
  finally show ?case by auto
qed

lemma foldl_dict_set_keys:
  "fst ` set (foldl (\<lambda>cols c. dict_set cols (f c) c) acc labels)
     = fst ` set acc \<union> f ` set labels"
  by (induction labels arbitrary: acc) (auto simp: dict_set_keys)

lemma lower_index_entries:
  "(k, orig) \<in> set (lower_index lower labels) \<Longrightarrow> k = lower orig \<and> orig \<in> set labels"
  using foldl_dict_set_entries [of lower "[]" labels] by (auto simp: lower_index_def)

lemma lower_index_keys: "fst ` set (lower_index lower labels) = lower ` set labels"
  using foldl_dict_set_keys [of lower "[]" labels] by (simp add: lower_index_def)

lemma first_entry_like_None:
  "first_entry_like lower name cols = None \<longleftrightarrow>
     (\<forall>k \<in> fst ` set cols. \<not> contains k (lower name))"
  by (induction lower name cols rule: first_entry_like.induct) auto

lemma first_entry_like_Some:
  "first_entry_like lower name cols = Some orig \<Longrightarrow>
     \<exists>k. (k, orig) \<in> set cols \<and> contains k (lower name)"
  by (induction lower name cols rule: first_entry_like.induct) (auto split: if_splits)

lemma scan_candidates_None:
  "scan_candidates lower cols candidates = None \<longleftrightarrow>
     (\<forall>name \<in> set candidates. first_entry_like lower name cols = None)"
  by (induction candidates) (auto split: option.splits)

lemma scan_candidates_Some:
  "scan_candidates lower cols candidates = Some orig \<Longrightarrow>
     \<exists>i < length candidates.
        first_entry_like lower (candidates ! i) cols = Some orig \<and>
        (\<forall>j < i. first_entry_like lower (candidates ! j) cols = None)"
proof (induction candidates)
  case Nil
  then show ?case by simp
next
  case (Cons name candidates)
  show ?case
  proof (cases "first_entry_like lower name cols")
    case None
    with Cons.prems have "scan_candidates lower cols candidates = Some orig" by simp
    from Cons.IH [OF this] obtain i where i: "i < length candidates"
      "first_entry_like lower (candidates ! i) cols = Some orig"
      "\<forall>j < i. first_entry_like lower (candidates ! j) cols = None" by blast
    have "\<forall>j < Suc i. first_entry_like lower ((name # candidates) ! j) cols = None"
      using None i(3) by (auto simp: less_Suc_eq_0_disj)
    with i(1,2) show ?thesis
      by (intro exI [of _ "Suc i"]) simp
  next
    case (Some l)
    with Cons.prems have "l = orig" by simp
    with Some show ?thesis
      by (intro exI [of _ 0]) simp
  qed
qed

lemma no_entry_iff_no_label:
  "first_entry_like (str_lower rt) name (lower_index (str_lower rt) labels) = None \<longleftrightarrow>
     (\<forall>label \<in> set labels. \<not> label_like rt name label)"
  by (simp add: first_entry_like_None lower_index_keys label_like_def)

lemma entry_is_label:
  assumes "first_entry_like (str_lower rt) name (lower_index (str_lower rt) labels) = Some orig"
  shows "orig \<in> set labels \<and> label_like rt name orig"
proof -
  from first_entry_like_Some [OF assms] obtain k
    where k: "(k, orig) \<in> set (lower_index (str_lower rt) labels)"
      "contains k (str_lower rt name)" by blast
  from lower_index_entries [OF k(1)] k(2) show ?thesis
    by (simp add: label_like_def)
qed

lemma col_like_unavailable: "unavailable df \<Longrightarrow> col_like rt df candidates = None"
  by (auto simp: unavailable_def col_like_def split: option.splits)

text \<open>
  Claim C5, as amended. For an absent table and for a frame without rows or without period
  columns \<^verbatim>\<open>_col_like\<close> returns \<open>None\<close>, whatever the labels and the candidates. For a
  frame with at least one row and one column it returns \<open>None\<close> exactly when no candidate is
  like any row label (the substring test on the lower-cased strings, under whatever case
  mapping the interpreter has); a returned label is a row label of the frame, and it is like
  the earliest candidate of the list that is like some row label: every earlier candidate is
  like no row.
\<close>

theorem col_like_spec:
  "col_like rt None candidates = None \<and>
   (df_empty d \<longrightarrow> col_like rt (Some d) candidates = None) \<and>
   (\<not> df_empty d \<longrightarrow>
      (col_like rt (Some d) candidates = None \<longleftrightarrow>
         \<not> (\<exists>name \<in> set candidates. \<exists>label \<in> set (map fst (df_rows d)).
               label_like rt name label)) \<and>
      (\<forall>l. col_like rt (Some d) candidates = Some l \<longrightarrow>
         l \<in> set (map fst (df_rows d)) \<and>
         (\<exists>i < length candidates.
            label_like rt (candidates ! i) l \<and>
            (\<forall>j < i. \<forall>label \<in> set (map fst (df_rows d)).
               \<not> label_like rt (candidates ! j) label))))"
proof -
  define labels where "labels = map fst (df_rows d)"
  have absent: "col_like rt None candidates = None"
    by (simp add: col_like_def)
  have empty: "df_empty d \<longrightarrow> col_like rt (Some d) candidates = None"
    by (simp add: col_like_def)
  have full: "(col_like rt (Some d) candidates = None \<longleftrightarrow>
         \<not> (\<exists>name \<in> set candidates. \<exists>label \<in> set labels. label_like rt name label)) \<and>
      (\<forall>l. col_like rt (Some d) candidates = Some l \<longrightarrow>
         l \<in> set labels \<and>
         (\<exists>i < length candidates.
            label_like rt (candidates ! i) l \<and>
            (\<forall>j < i. \<forall>label \<in> set labels. \<not> label_like rt (candidates ! j) label)))"
    if ne: "\<not> df_empty d"
  proof -
    have unfold: "col_like rt (Some d) candidates =
        scan_candidates (str_lower rt) (lower_index (str_lower rt) labels) candidates"
      using ne by (simp add: col_like_def labels_def)
    have none: "col_like rt (Some d) candidates = None \<longleftrightarrow>
        \<not> (\<exists>name \<in> set candidates. \<exists>label \<in> set labels. label_like rt name label)"
      by (simp add: unfold scan_candidates_None no_entry_iff_no_label)
    have some: "l \<in> set labels \<and>
        (\<exists>i < length candidates.
           label_like rt (candidates ! i) l \<and>
           (\<forall>j < i. \<forall>label \<in> set labels. \<not> label_like rt (candidates ! j) label))"
      if "col_like rt (Some d) candidates = Some l" for l
    proof -
      from that
      have "scan_candidates (str_lower rt) (lower_index (str_lower rt) labels) candidates =
          Some l"
        by (simp add: unfold)
      from scan_candidates_Some [OF this] obtain i where i: "i < length candidates"
        "first_entry_like (str_lower rt) (candidates ! i)
           (lower_index (str_lower rt) labels) = Some l"
        "\<forall>j < i. first_entry_like (str_lower rt) (candidates ! j)
           (lower_index (str_lower rt) labels) = None" by blast
      from entry_is_label [OF i(2)] i(1,3) show ?thesis
        by (auto simp: no_entry_iff_no_label)
    qed
    show ?thesis
      using none some by blast
  qed
  show ?thesis
    using absent empty full unfolding labels_def by blast
qed

theorem col_like_spec_witness:
  "df_empty no_columns \<and> col_like rt_2024 (Some no_columns) [''net income''] = None \<and>
   \<not> df_empty three_quarters \<and>
   col_like rt_2024 (Some three_quarters) [''ebitda'', ''INCOME'', ''revenue''] =
     Some ''Net Income'' \<and>
   ''Net Income'' \<in> set (map fst (df_rows three_quarters)) \<and>
   (\<exists>i < length [''ebitda'', ''INCOME'', ''revenue''].
      label_like rt_2024 ([''ebitda'', ''INCOME'', ''revenue''] ! i) ''Net Income'')"
proof -
  have e: "df_empty no_columns"
    by code_simp
  have ne: "\<not> df_empty three_quarters"
    by code_simp
  have ev: "col_like rt_2024 (Some three_quarters) [''ebitda'', ''INCOME'', ''revenue''] =
      Some ''Net Income''"
    by code_simp
  show ?thesis
    using e ne ev
      col_like_spec [where rt = rt_2024 and d = no_columns and candidates = "[''net income'']"]
      col_like_spec [where rt = rt_2024 and d = three_quarters
        and candidates = "[''ebitda'', ''INCOME'', ''revenue'']"]
    by blast
qed

text \<open>
  Claim C5 as stated fails on a frame without period columns: \<^verbatim>\<open>df.empty\<close> holds, and the
  function returns \<open>None\<close> although the candidate is like a row label.
\<close>

theorem col_like_no_columns:
  "label_like rt_2024 ''net income'' ''Net Income'' \<and>
   ''Net Income'' \<in> set (map fst (df_rows no_columns)) \<and>
   col_like rt_2024 (Some no_columns) [''net income''] = None"
  by code_simp

section \<open>Trailing-twelve-month sums and latest values\<close>

lemma col_like_in_rows:
  assumes "col_like rt (Some d) candidates = Some row"
  shows "row \<in> set (map fst (df_rows d))"
proof -
  from assms
  have "scan_candidates (str_lower rt) (lower_index (str_lower rt) (map fst (df_rows d)))
          candidates = Some row"
    by (simp add: col_like_def split: if_splits)
  from scan_candidates_Some [OF this] obtain i
    where "first_entry_like (str_lower rt) (candidates ! i)
             (lower_index (str_lower rt) (map fst (df_rows d))) = Some row"
    by blast
  from entry_is_label [OF this] show ?thesis by simp
qed

lemma one_row_per_label:
  assumes "distinct (map fst rows)" and "row \<in> set (map fst rows)"
  shows "\<exists>r. filter (\<lambda>x. fst x = row) rows = [r]"
  using assms
proof (induction rows)
  case Nil
  then show ?case by simp
next
  case (Cons x rows)
  show ?case
  proof (cases "fst x = row")
    case True
    with Cons.prems(1) have "row \<notin> fst ` set rows"
      by simp
    then have "\<forall>y \<in> set rows. fst y \<noteq> row"
      by force
    then have "filter (\<lambda>y. fst y = row) rows = []"
      by (simp add: filter_empty_conv)
    with True show ?thesis by simp
  next
    case False
    with Cons show ?thesis by auto
  qed
qed

lemma loc_row:
  assumes "distinct (map fst (df_rows d))" and "row \<in> set (map fst (df_rows d))"
  shows "\<exists>r. loc d row = Inr (Row r)"
proof -
  from one_row_per_label [OF assms] obtain r
    where "filter (\<lambda>x. fst x = row) (df_rows d) = [r]" ..
  then show ?thesis
    by (simp add: loc_def)
qed

lemma ttm_sum_returns:
  assumes "unique_labels df"
  shows "\<exists>v. ttm_sum rt df candidates = Inr v"
proof (cases df)
  case None
  then show ?thesis by (simp add: ttm_sum_def)
next
  case (Some d)
  show ?thesis
  proof (cases "col_like rt (Some d) candidates")
    case None
    with Some show ?thesis by (simp add: ttm_sum_def)
  next
    case (Some row)
    from assms \<open>df = Some d\<close> have "distinct (map fst (df_rows d))"
      by (simp add: unique_labels_def)
    from loc_row [OF this col_like_in_rows [OF Some]] obtain r
      where "loc d row = Inr (Row r)" ..
    with Some \<open>df = Some d\<close> show ?thesis
      by (simp add: ttm_sum_def Let_def)
  qed
qed

lemma latest_value_returns:
  assumes "unique_labels df"
  shows "\<exists>v. latest_value rt df candidates = Inr v"
proof (cases df)
  case None
  then show ?thesis by (simp add: latest_value_def)
next
  case (Some d)
  show ?thesis
  proof (cases "col_like rt (Some d) candidates")
    case None
    with Some show ?thesis by (simp add: latest_value_def)
  next
    case (Some row)
    from assms \<open>df = Some d\<close> have "distinct (map fst (df_rows d))"
      by (simp add: unique_labels_def)
    from loc_row [OF this col_like_in_rows [OF Some]] obtain r
      where "loc d row = Inr (Row r)" ..
    with Some \<open>df = Some d\<close> show ?thesis
      by (simp add: latest_value_def Let_def iloc_last)
  qed
qed

lemma ttm_sum_unavailable: "unavailable df \<Longrightarrow> ttm_sum rt df candidates = Inr None"
  by (auto simp: unavailable_def ttm_sum_def split: option.splits)


lemma returned_Inr [simp]: "returned (Inr v) = v"
  by (simp add: returned_def)

lemma ttm_sum_Inr:
  "unique_labels df \<Longrightarrow> ttm_sum rt df candidates = Inr (returned (ttm_sum rt df candidates))"
  using ttm_sum_returns [of df rt candidates] by (auto simp: returned_def)

lemma latest_value_Inr:
  "unique_labels df \<Longrightarrow>
     latest_value rt df candidates = Inr (returned (latest_value rt df candidates))"
  using latest_value_returns [of df rt candidates] by (auto simp: returned_def)

lemma wf_stmts_unique:
  assumes "wf_stmts stmts"
  shows "unique_labels (stmts ''income_q'')" and "unique_labels (stmts ''bs_a'')"
    and "unique_labels (stmts ''cf_q'')"
  using assms by (auto simp: wf_stmts_def wf_frame_def unique_labels_def split: option.splits)

lemma ttm_sum_four_quarters:
  "ttm_sum rt_2024 (Some four_quarters) [''net income'', ''net income common''] = Inr (Some 250)"
  by code_simp

text \<open>
  Claim C1. \<^verbatim>\<open>ttm_sum\<close> is documented as the sum of the four latest quarters, and the page
  module's \<^verbatim>\<open>_ttm_from_quarterly\<close> gives \<^verbatim>\<open>None\<close> below four periods. \<^verbatim>\<open>ttm_sum\<close>
  itself only tests \<^verbatim>\<open>s.empty\<close> after \<^verbatim>\<open>tail(4)\<close>: on a table whose net income has three
  reported quarters (30, 20, 10) and one missing, it returns their sum 60, not \<open>None\<close>.
\<close>

theorem ttm_sum_three_quarters:
  "ttm_sum rt_2024 (Some three_quarters) [''net income'', ''net income common''] =
     Inr (Some 60)"
  by code_simp

section \<open>The ratio calculator runs to the end\<close>

lemma safe_div_None [simp]: "safe_div rt None b = None" "safe_div rt a None = None"
  by (simp_all add: safe_div_def safe_div_body_def split: option.splits)

lemma safe_div_Some:
  "safe_div rt (Some x) (Some y) = (if y = 0 then None else Some (x / y))"
  by (simp add: safe_div_def safe_div_body_def py_truediv_def)

lemma clean_value_same [simp]: "clean_value k v = v"
  by (simp add: clean_value_def py_float_def split: option.splits)

lemma cleanup_same [simp]: "cleanup out = out"
  by (induction out) (auto simp: cleanup_def)

lemma trailing_pe_value:
  assumes "ttm_sum rt (stmts ''income_q'') [''net income'', ''net income common''] = Inr ni"
  shows "trailing_pe rt price shares info stmts =
    Inr (case info ''trailingPE'' of
           Some v \<Rightarrow> Some v
         | None \<Rightarrow> if price \<noteq> None \<and> truthy shares
                    then safe_div rt price (safe_div rt ni shares) else None)"
  using assms
  by (cases "info ''trailingPE''") (simp_all add: trailing_pe_def Let_def)

lemma price_to_sales_value:
  assumes "ttm_sum rt (stmts ''income_q'') [''total revenue'', ''revenue'', ''sales''] =
      Inr sales"
  shows "price_to_sales rt price shares info stmts =
    Inr (case info ''priceToSalesTrailing12Months'' of
           Some v \<Rightarrow> Some v
         | None \<Rightarrow>
             (case price of
                None \<Rightarrow> None
              | Some p \<Rightarrow>
                  (case shares of
                     None \<Rightarrow> None
                   | Some s \<Rightarrow> if s = 0 then None else safe_div rt (Some (p * s)) sales)))"
  using assms
  by (cases "info ''priceToSalesTrailing12Months''"; cases price; cases shares)
    (simp_all add: price_to_sales_def Let_def truthy_def)

lemma ev_to_ebitda_value:
  assumes "latest_value rt (stmts ''bs_a'')
             [''total debt'', ''long term debt'', ''short long term debt''] = Inr total_debt"
    and "latest_value rt (stmts ''bs_a'') [''cash'', ''cash and cash equivalents''] = Inr cash"
    and "ttm_sum rt (stmts ''income_q'') [''ebitda''] = Inr ebitda_ttm"
  shows "ev_to_ebitda rt mcap info stmts =
    Inr (case info ''enterpriseToEbitda'' of
           Some v \<Rightarrow> Some v
         | None \<Rightarrow>
             (case mcap of
                None \<Rightarrow> None
              | Some m \<Rightarrow>
                  (case total_debt of
                     None \<Rightarrow> None
                   | Some d \<Rightarrow>
                       (case cash of
                          None \<Rightarrow> None
                        | Some c \<Rightarrow> safe_div rt (Some (m + d - c)) ebitda_ttm))))"
  using assms by (simp add: ev_to_ebitda_def Let_def split: option.splits)

lemma fcf_ttm_of_value:
  assumes "ttm_sum rt (stmts ''cf_q'')
             [''total cash from operating activities'', ''operating cash flow''] = Inr ocf"
    and "ttm_sum rt (stmts ''cf_q'') [''capital expenditures''] = Inr capex"
  shows "fcf_ttm_of rt stmts =
    Inr (case ocf of
           None \<Rightarrow> None
         | Some f \<Rightarrow> (case capex of None \<Rightarrow> None | Some c \<Rightarrow> Some (f - c)))"
proof (cases "unavailable (stmts ''cf_q'')")
  case True
  with assms have "ocf = None"
    by (simp add: ttm_sum_unavailable)
  with True show ?thesis
    by (auto simp: fcf_ttm_of_def unavailable_def split: option.splits)
next
  case False
  with assms show ?thesis
    by (auto simp: fcf_ttm_of_def unavailable_def Let_def split: option.splits)
qed

lemma ebit_ttm_of_value:
  assumes "ttm_sum rt inc_q [''ebit'', ''operating income''] = Inr ebit"
  shows "ebit_ttm_of rt inc_q = Inr ebit"
proof (cases "unavailable inc_q")
  case True
  with assms have "ebit = None"
    by (simp add: ttm_sum_unavailable)
  with True show ?thesis
    by (auto simp: ebit_ttm_of_def unavailable_def split: option.splits)
next
  case False
  with assms show ?thesis
    by (auto simp: ebit_ttm_of_def unavailable_def split: option.splits)
qed

lemma compute_core_ratios_value:
  assumes "reads_of rt stmts r"
  shows "compute_core_ratios rt price info stmts = Inr (ratio_entries rt price info r)"
proof -
  note r = assms [unfolded reads_of_def]
  have pe: "trailing_pe rt price (info ''sharesOutstanding'') info stmts =
      Inr (snd (ratio_entries rt price info r ! 0))"
    using trailing_pe_value [where rt = rt and stmts = stmts and ni = "r_net_income r"] r
    by (simp add: ratio_entries_def)
  have ps: "price_to_sales rt price (info ''sharesOutstanding'') info stmts =
      Inr (snd (ratio_entries rt price info r ! 2))"
    using price_to_sales_value [where rt = rt and stmts = stmts and sales = "r_sales r"] r
    by (simp add: ratio_entries_def)
  have ev: "ev_to_ebitda rt (info ''marketCap'') info stmts =
      Inr (snd (ratio_entries rt price info r ! 3))"
    using ev_to_ebitda_value [where rt = rt and stmts = stmts and total_debt = "r_debt_any r"
        and cash = "r_cash r" and ebitda_ttm = "r_ebitda r"] r
    by (simp add: ratio_entries_def)
  have fcf: "fcf_ttm_of rt stmts =
      Inr (case r_ocf r of
             None \<Rightarrow> None
           | Some f \<Rightarrow> (case r_capex r of None \<Rightarrow> None | Some c \<Rightarrow> Some (f - c)))"
    using fcf_ttm_of_value [where rt = rt and stmts = stmts] r by simp
  have ebit: "ebit_ttm_of rt (stmts ''income_q'') = Inr (r_ebit r)"
    using ebit_ttm_of_value [where rt = rt and inc_q = "stmts ''income_q''"] r by simp
  show ?thesis
    using r by (simp add: compute_core_ratios_def Let_def pe ps ev fcf ebit ratio_entries_def)
qed

lemma reads_exist:
  assumes "wf_stmts stmts"
  shows "\<exists>r. reads_of rt stmts r"
proof -
  note u = wf_stmts_unique [OF assms]
  define r where "r =
    \<lparr>r_net_income =
        returned (ttm_sum rt (stmts ''income_q'') [''net income'', ''net income common'']),
      r_sales =
        returned (ttm_sum rt (stmts ''income_q'') [''total revenue'', ''revenue'', ''sales'']),
      r_debt_any =
        returned (latest_value rt (stmts ''bs_a'')
                    [''total debt'', ''long term debt'', ''short long term debt'']),
      r_cash =
        returned (latest_value rt (stmts ''bs_a'') [''cash'', ''cash and cash equivalents'']),
      r_ebitda = returned (ttm_sum rt (stmts ''income_q'') [''ebitda'']),
      r_ocf =
        returned (ttm_sum rt (stmts ''cf_q'')
                    [''total cash from operating activities'', ''operating cash flow'']),
      r_capex = returned (ttm_sum rt (stmts ''cf_q'') [''capital expenditures'']),
      r_equity =
        returned (latest_value rt (stmts ''bs_a'')
                    [''total stockholder equity'', ''total shareholders equity'']),
      r_debt = returned (latest_value rt (stmts ''bs_a'') [''total debt'', ''long term debt'']),
      r_assets = returned (latest_value rt (stmts ''bs_a'') [''total current assets'']),
      r_liab = returned (latest_value rt (stmts ''bs_a'') [''total current liabilities'']),
      r_ebit = returned (ttm_sum rt (stmts ''income_q'') [''ebit'', ''operating income'']),
      r_interest =
        returned (ttm_sum rt (stmts ''income_q'')
                    [''interest expense'', ''interest expense non operating''])\<rparr>"
  have "reads_of rt stmts r"
    unfolding reads_of_def r_def
    by (simp add: ttm_sum_Inr [OF u(1), symmetric] ttm_sum_Inr [OF u(3), symmetric]
        latest_value_Inr [OF u(2), symmetric])
  then show ?thesis ..
qed

lemma bs_q_unread:
  "compute_core_ratios rt price info (stmts(''bs_q'' := q)) =
     compute_core_ratios rt price info stmts"
proof -
  have "trailing_pe rt price shares info (stmts(''bs_q'' := q)) =
      trailing_pe rt price shares info stmts" for shares
    by (simp add: trailing_pe_def Let_def cong: if_cong)
  moreover have "price_to_sales rt price shares info (stmts(''bs_q'' := q)) =
      price_to_sales rt price shares info stmts" for shares
    by (simp add: price_to_sales_def Let_def cong: if_cong)
  moreover have "ev_to_ebitda rt mcap info (stmts(''bs_q'' := q)) =
      ev_to_ebitda rt mcap info stmts" for mcap
    by (simp add: ev_to_ebitda_def Let_def cong: if_cong)
  moreover have "fcf_ttm_of rt (stmts(''bs_q'' := q)) = fcf_ttm_of rt stmts"
    by (simp add: fcf_ttm_of_def Let_def cong: if_cong)
  ultimately show ?thesis
    by (simp add: compute_core_ratios_def Let_def cong: if_cong)
qed

text \<open>
  Claim C2. \<^verbatim>\<open>compute_core_ratios\<close> returns, and its \<^verbatim>\<open>P/E (TTM)\<close> entry is the provider's
  \<^verbatim>\<open>trailingPE\<close> whenever that is present, whatever the price and the statements. Only when
  it is absent is the fallback computed: with a price \<open>p\<close>, a non-zero share count \<open>s\<close> and a
  non-zero trailing net income \<open>t\<close> of the quarterly income table it is \<open>p / (t / s)\<close>, and
  \<open>None\<close> otherwise. With \<open>p = 10\<close>, \<open>s = 100\<close> and \<open>t = 250\<close> the entry is 4.
\<close>

theorem trailing_pe_precedence:
  assumes "wf_stmts stmts"
  shows "\<exists>out ni.
     compute_core_ratios rt price info stmts = Inr out \<and>
     ttm_sum rt (stmts ''income_q'') [''net income'', ''net income common''] = Inr ni \<and>
     map_of out ''P/E (TTM)'' =
       Some (case info ''trailingPE'' of
               Some v \<Rightarrow> Some v
             | None \<Rightarrow>
                 (case price of
                    None \<Rightarrow> None
                  | Some p \<Rightarrow>
                      (case info ''sharesOutstanding'' of
                         None \<Rightarrow> None
                       | Some s \<Rightarrow>
                           (case ni of
                              None \<Rightarrow> None
                            | Some t \<Rightarrow>
                                if s = 0 \<or> t = 0 then None else Some (p / (t / s)))))) \<and>
     (info ''trailingPE'' = None \<and> price = Some 10 \<and> info ''sharesOutstanding'' = Some 100 \<and>
      ni = Some 250 \<longrightarrow> map_of out ''P/E (TTM)'' = Some (Some 4))"
proof -
  from reads_exist [OF assms] obtain r where r: "reads_of rt stmts r" ..
  define ni where "ni = r_net_income r"
  define out where "out = ratio_entries rt price info r"
  have run: "compute_core_ratios rt price info stmts = Inr out"
    unfolding out_def by (rule compute_core_ratios_value [OF r])
  have ni: "ttm_sum rt (stmts ''income_q'') [''net income'', ''net income common''] = Inr ni"
    using r by (simp add: reads_of_def ni_def)
  have val: "map_of out ''P/E (TTM)'' =
       Some (case info ''trailingPE'' of
               Some v \<Rightarrow> Some v
             | None \<Rightarrow>
                 (case price of
                    None \<Rightarrow> None
                  | Some p \<Rightarrow>
                      (case info ''sharesOutstanding'' of
                         None \<Rightarrow> None
                       | Some s \<Rightarrow>
                           (case ni of
                              None \<Rightarrow> None
                            | Some t \<Rightarrow>
                                if s = 0 \<or> t = 0 then None else Some (p / (t / s))))))"
    by (simp add: out_def ratio_entries_def ni_def truthy_def safe_div_Some
        split: option.splits)
  have example: "map_of out ''P/E (TTM)'' = Some (Some 4)"
    if "info ''trailingPE'' = None \<and> price = Some 10 \<and>
        info ''sharesOutstanding'' = Some 100 \<and> ni = Some 250"
    using that by (simp add: val)
  from run ni val example show ?thesis
    by blast
qed

theorem trailing_pe_precedence_witness:
  "wf_stmts quarterly_only \<and>
   (\<exists>out. compute_core_ratios rt_2024 (Some 10) bare_profile quarterly_only = Inr out \<and>
          map_of out ''P/E (TTM)'' = Some (Some 4)) \<and>
   (\<exists>out. compute_core_ratios rt_2024 None provider_profile quarterly_only = Inr out \<and>
          map_of out ''P/E (TTM)'' = Some (Some 12.5))"
proof -
  have wf: "wf_stmts quarterly_only"
    by code_simp
  have sum: "ttm_sum rt_2024 (quarterly_only ''income_q'')
      [''net income'', ''net income common''] = Inr (Some 250)"
    by code_simp
  have a: "bare_profile ''trailingPE'' = None" "bare_profile ''sharesOutstanding'' = Some 100"
    by (simp_all add: bare_profile_def)
  have b: "provider_profile ''trailingPE'' = Some 12.5"
    by (simp add: provider_profile_def)
  from trailing_pe_precedence
    [OF wf, where rt = rt_2024 and price = "Some 10" and info = bare_profile] sum a
  have first: "\<exists>out. compute_core_ratios rt_2024 (Some 10) bare_profile quarterly_only =
          Inr out \<and> map_of out ''P/E (TTM)'' = Some (Some 4)"
    by auto
  from trailing_pe_precedence
    [OF wf, where rt = rt_2024 and price = None and info = provider_profile] b
  have second: "\<exists>out. compute_core_ratios rt_2024 None provider_profile quarterly_only =
          Inr out \<and> map_of out ''P/E (TTM)'' = Some (Some 12.5)"
    by auto
  from wf first second show ?thesis by blast
qed

text \<open>
  Claim C8. The \<^verbatim>\<open>EV/EBITDA (TTM)\<close> entry is the provider's \<^verbatim>\<open>enterpriseToEbitda\<close> when
  present. Otherwise it is (market cap + latest total debt - latest cash) over the trailing
  EBITDA of the quarterly income table, and \<open>None\<close> when the market cap, the debt, the cash
  or the EBITDA is absent or the EBITDA is zero. Debt and cash are read from the annual
  balance sheet \<^verbatim>\<open>bs_a\<close>; the quarterly balance sheet \<^verbatim>\<open>bs_q\<close> is never read, so replacing
  it changes nothing.
\<close>

theorem ev_to_ebitda_annual:
  assumes "wf_stmts stmts"
  shows "\<exists>out total_debt cash ebitda_ttm.
     compute_core_ratios rt price info stmts = Inr out \<and>
     latest_value rt (stmts ''bs_a'')
       [''total debt'', ''long term debt'', ''short long term debt''] = Inr total_debt \<and>
     latest_value rt (stmts ''bs_a'') [''cash'', ''cash and cash equivalents''] = Inr cash \<and>
     ttm_sum rt (stmts ''income_q'') [''ebitda''] = Inr ebitda_ttm \<and>
     map_of out ''EV/EBITDA (TTM)'' =
       Some (case info ''enterpriseToEbitda'' of
               Some v \<Rightarrow> Some v
             | None \<Rightarrow>
                 (case info ''marketCap'' of
                    None \<Rightarrow> None
                  | Some m \<Rightarrow>
                      (case total_debt of
                         None \<Rightarrow> None
                       | Some d \<Rightarrow>
                           (case cash of
                              None \<Rightarrow> None
                            | Some c \<Rightarrow>
                                (case ebitda_ttm of
                                   None \<Rightarrow> None
                                 | Some e \<Rightarrow>
                                     if e = 0 then None else Some ((m + d - c) / e)))))) \<and>
     compute_core_ratios rt price info (stmts(''bs_q'' := q)) = Inr out"
proof -
  from reads_exist [OF assms] obtain r where r: "reads_of rt stmts r" ..
  define total_debt where "total_debt = r_debt_any r"
  define cash where "cash = r_cash r"
  define ebitda_ttm where "ebitda_ttm = r_ebitda r"
  define out where "out = ratio_entries rt price info r"
  have run: "compute_core_ratios rt price info stmts = Inr out"
    unfolding out_def by (rule compute_core_ratios_value [OF r])
  have td: "latest_value rt (stmts ''bs_a'')
       [''total debt'', ''long term debt'', ''short long term debt''] = Inr total_debt"
    using r by (simp add: reads_of_def total_debt_def)
  have c: "latest_value rt (stmts ''bs_a'') [''cash'', ''cash and cash equivalents''] =
      Inr cash"
    using r by (simp add: reads_of_def cash_def)
  have e: "ttm_sum rt (stmts ''income_q'') [''ebitda''] = Inr ebitda_ttm"
    using r by (simp add: reads_of_def ebitda_ttm_def)
  have look: "map_of out ''EV/EBITDA (TTM)'' =
       Some (case info ''enterpriseToEbitda'' of
               Some v \<Rightarrow> Some v
             | None \<Rightarrow>
                 (case info ''marketCap'' of
                    None \<Rightarrow> None
                  | Some m \<Rightarrow>
                      (case total_debt of
                         None \<Rightarrow> None
                       | Some d \<Rightarrow>
                           (case cash of
                              None \<Rightarrow> None
                            | Some c \<Rightarrow>
                                (case ebitda_ttm of
                                   None \<Rightarrow> None
                                 | Some e \<Rightarrow>
                                     if e = 0 then None else Some ((m + d - c) / e))))))"
    by (simp add: out_def ratio_entries_def total_debt_def cash_def ebitda_ttm_def
        safe_div_Some split: option.splits)
  have "compute_core_ratios rt price info (stmts(''bs_q'' := q)) = Inr out"
    using run by (simp add: bs_q_unread)
  with run td c e look show ?thesis
    by blast
qed

theorem ev_to_ebitda_annual_witness:
  "wf_stmts full_statements \<and>
   (\<exists>out. compute_core_ratios rt_2024 (Some 10) bare_profile full_statements = Inr out \<and>
          map_of out ''EV/EBITDA (TTM)'' = Some (Some 3) \<and>
          compute_core_ratios rt_2024 (Some 10) bare_profile
            (full_statements(''bs_q'' \<mapsto> three_quarters)) = Inr out)"
proof -
  have wf: "wf_stmts full_statements"
    by code_simp
  have td: "latest_value rt_2024 (full_statements ''bs_a'')
       [''total debt'', ''long term debt'', ''short long term debt''] = Inr (Some 300)"
    by code_simp
  have c: "latest_value rt_2024 (full_statements ''bs_a'')
      [''cash'', ''cash and cash equivalents''] = Inr (Some 100)"
    by code_simp
  have e: "ttm_sum rt_2024 (full_statements ''income_q'') [''ebitda''] = Inr (Some 400)"
    by code_simp
  have info: "bare_profile ''enterpriseToEbitda'' = None" "bare_profile ''marketCap'' = Some 1000"
    by (simp_all add: bare_profile_def)
  from ev_to_ebitda_annual [OF wf, where rt = rt_2024 and price = "Some 10"
      and info = bare_profile and q = "Some three_quarters"] td c e info
  have "\<exists>out. compute_core_ratios rt_2024 (Some 10) bare_profile full_statements = Inr out \<and>
          map_of out ''EV/EBITDA (TTM)'' = Some (Some 3) \<and>
          compute_core_ratios rt_2024 (Some 10) bare_profile
            (full_statements(''bs_q'' \<mapsto> three_quarters)) = Inr out"
    by auto
  with wf show ?thesis by blast
qed




section \<open>Dependence on the clock\<close>

lemma col_like_clock: "col_like (rt\<lparr>clock := t\<rparr>) df candidates = col_like rt df candidates"
  by (simp add: col_like_def cong: option.case_cong if_cong)

lemma ttm_sum_clock: "ttm_sum (rt\<lparr>clock := t\<rparr>) df candidates = ttm_sum rt df candidates"
  by (simp add: ttm_sum_def col_like_clock cong: option.case_cong if_cong)

lemma latest_value_clock:
  "latest_value (rt\<lparr>clock := t\<rparr>) df candidates = latest_value rt df candidates"
  by (simp add: latest_value_def col_like_clock cong: option.case_cong if_cong)

lemma safe_div_clock: "safe_div (rt\<lparr>clock := t\<rparr>) a b = safe_div rt a b"
  by (simp add: safe_div_def safe_div_body_def)

lemma compute_core_ratios_clock:
  "compute_core_ratios (rt\<lparr>clock := t\<rparr>) price info stmts =
     compute_core_ratios rt price info stmts"
  by (simp add: compute_core_ratios_def trailing_pe_def price_to_sales_def ev_to_ebitda_def
      fcf_ttm_of_def ebit_ttm_of_def ttm_sum_clock latest_value_clock safe_div_clock Let_def
      cong: if_cong)

text \<open>
  Claim C4, as amended. Setting the clock of the runtime to any other reading changes nothing
  in the windowed return (either page's), the trailing sum, the latest value and the ratio
  calculator: they are functions of their explicit arguments. The year-to-date return (either
  page's) reads the clock: its outcome stays the same when the new reading is in the same
  calendar year.
\<close>

theorem clock_dependence:
  "pct_window (rt\<lparr>clock := t\<rparr>) s n = pct_window rt s n \<and>
   ret_days (rt\<lparr>clock := t\<rparr>) s n = ret_days rt s n \<and>
   ttm_sum (rt\<lparr>clock := t\<rparr>) df candidates = ttm_sum rt df candidates \<and>
   latest_value (rt\<lparr>clock := t\<rparr>) df candidates = latest_value rt df candidates \<and>
   compute_core_ratios (rt\<lparr>clock := t\<rparr>) price info stmts =
     compute_core_ratios rt price info stmts \<and>
   (year_of t = year_of (clock rt) \<longrightarrow>
      ytd_return (rt\<lparr>clock := t\<rparr>) s = ytd_return rt s \<and>
      ret_ytd (rt\<lparr>clock := t\<rparr>) s = ret_ytd rt s)"
  by (simp add: pct_window_def ret_days_def ttm_sum_clock latest_value_clock
      compute_core_ratios_clock ytd_return_def ret_ytd_def Let_def cong: if_cong)

theorem clock_dependence_witness:
  "year_of (2024, 1, 15) = year_of (clock rt_2024) \<and>
   ytd_return (rt_2024\<lparr>clock := (2024, 1, 15)\<rparr>) across_years = ytd_return rt_2024 across_years \<and>
   ret_ytd (rt_2024\<lparr>clock := (2024, 1, 15)\<rparr>) across_years = ret_ytd rt_2024 across_years \<and>
   pct_window (rt_2024\<lparr>clock := (2024, 1, 15)\<rparr>) five_days 1 = pct_window rt_2024 five_days 1"
  using clock_dependence [where rt = rt_2024 and t = "(2024, 1, 15)" and s = across_years]
    clock_dependence [where rt = rt_2024 and t = "(2024, 1, 15)" and s = five_days and n = 1]
  by (simp add: year_of_def rt_2024_def ascii_rt_def)

text \<open>
  Claim C4 as stated fails for the year-to-date return: the same series gives 150 percent
  under a clock in 2023 and 25 percent under a clock in 2024.
\<close>

theorem ytd_return_reads_clock:
  "ytd_return (ascii_rt (2023, 6, 30)) across_years = Inr (Some (Finite (3 / 2))) \<and>
   ytd_return (ascii_rt (2024, 6, 30)) across_years = Inr (Some (Finite (1 / 4))) \<and>
   ytd_return (ascii_rt (2023, 6, 30)) across_years \<noteq>
     ytd_return (ascii_rt (2024, 6, 30)) across_years"
  by (simp add: ytd_return_def across_years_def year_of_def ascii_rt_def Let_def iloc_def
      np_truediv_def np_sub_def)

end
